theory Spec2Isabelle
  imports Main
begin

section \<open>Password-reset tokens of \<^verbatim>\<open>exchange_api/api/views.py\<close>\<close>

text \<open>
  The views \<^verbatim>\<open>PasswordResetRequest\<close> and \<^verbatim>\<open>PasswordResetConfirm\<close> derive a reset token
  from the user's row and the wall clock, and recompute it to check a presented token.
  Python's \<^verbatim>\<open>str\<close> is modelled as \<open>string\<close> (each \<open>char\<close> one code point), Python's
  \<^verbatim>\<open>int\<close> as \<open>int\<close>, and every exception as a value of \<open>py_error\<close> on the left of a sum.
\<close>

subsection \<open>Data\<close>

datatype py_error =
  TypeError | ValueError | OverflowError | DoesNotExist
  | MultipleObjectsReturned | OSError | SMTPException

text \<open>The columns of \<^verbatim>\<open>User\<close> that the views read: \<^verbatim>\<open>user.email\<close>, \<^verbatim>\<open>user.id\<close>
  (the primary key, also read as \<^verbatim>\<open>user.pk\<close>) and \<^verbatim>\<open>user.password\<close>.\<close>

record user =
  email :: string
  user_id :: int
  password :: string

text \<open>
  \<^verbatim>\<open>sha256(s.encode()).hexdigest()\<close> is hashlib's; it is a parameter of the model, a
  function from the string to the hexadecimal digest, which may raise.
  \<^verbatim>\<open>int(timezone.now().timestamp())\<close> is the reading of the clock, which may raise too:
  the model takes its outcome.
\<close>

type_synonym digest = "string \<Rightarrow> py_error + string"
type_synonym clock = "py_error + int"

subsection \<open>Formatting an integer as the f-string does\<close>

definition digit_char :: "nat \<Rightarrow> char" where
  "digit_char d = ''0123456789'' ! d"

function str_nat :: "nat \<Rightarrow> string" where
  "str_nat n = (if n < 10 then [digit_char n] else str_nat (n div 10) @ [digit_char (n mod 10)])"
  by pat_completeness auto
termination
  by (relation "measure (\<lambda>n. n)") auto

declare str_nat.simps [simp del]

definition str_int :: "int \<Rightarrow> string" where
  "str_int i = (if i < 0 then CHR ''-'' # str_nat (nat (- i)) else str_nat (nat i))"

subsection \<open>The token\<close>

text \<open>\<^verbatim>\<open>f"{user.email}-{user.id}-{user.password}-{timestamp_hours}"\<close>\<close>

definition token_string :: "user \<Rightarrow> int \<Rightarrow> string" where
  "token_string u ts =
     email u @ ''-'' @ str_int (user_id u) @ ''-'' @ password u @ ''-'' @ str_int ts"

text \<open>\<^verbatim>\<open>sha256(token_string.encode()).hexdigest()[:32]\<close>\<close>

definition digest32 :: "digest \<Rightarrow> string \<Rightarrow> py_error + string" where
  "digest32 H s = (case H s of Inl e \<Rightarrow> Inl e | Inr d \<Rightarrow> Inr (take 32 d))"

text \<open>\<^verbatim>\<open>PasswordResetRequest.generate_token\<close>: nothing is caught, an exception of the
  clock or of the digest leaves the method.\<close>

definition generate_token :: "digest \<Rightarrow> clock \<Rightarrow> user \<Rightarrow> py_error + string" where
  "generate_token H clk u =
     (case clk of
        Inl e \<Rightarrow> Inl e
      | Inr timestamp \<Rightarrow>
          (let timestamp_hours = timestamp - (timestamp mod 3600)
           in digest32 H (token_string u timestamp_hours)))"

text \<open>
  The loop \<^verbatim>\<open>for hours in range(24)\<close> of \<^verbatim>\<open>check_token\<close>, over the values of
  \<^verbatim>\<open>hours\<close> that remain: it returns at the first candidate that equals the token, and
  an exception of the digest leaves the loop.
\<close>

fun check_hours :: "digest \<Rightarrow> user \<Rightarrow> string \<Rightarrow> int \<Rightarrow> nat list \<Rightarrow> py_error + bool" where
  "check_hours H u token current_time [] = Inr False"
| "check_hours H u token current_time (hours # rest) =
     (let check_time = current_time - (current_time mod 3600) - (int hours * 3600)
      in case digest32 H (token_string u check_time) of
           Inl e \<Rightarrow> Inl e
         | Inr expected_token \<Rightarrow>
             if token = expected_token then Inr True
             else check_hours H u token current_time rest)"

text \<open>The body of the \<^verbatim>\<open>try\<close> of \<^verbatim>\<open>check_token\<close>.\<close>

definition check_token_try :: "digest \<Rightarrow> clock \<Rightarrow> user \<Rightarrow> string \<Rightarrow> py_error + bool" where
  "check_token_try H clk u token =
     (case clk of
        Inl e \<Rightarrow> Inl e
      | Inr current_time \<Rightarrow> check_hours H u token current_time [0..<24])"

text \<open>\<^verbatim>\<open>PasswordResetConfirm.check_token\<close>: \<^verbatim>\<open>except Exception: return False\<close>.\<close>

definition check_token :: "digest \<Rightarrow> clock \<Rightarrow> user \<Rightarrow> string \<Rightarrow> bool" where
  "check_token H clk u token =
     (case check_token_try H clk u token of Inl e \<Rightarrow> False | Inr b \<Rightarrow> b)"

text \<open>A digest that returns on every string: \<open>returning D\<close> never raises.\<close>

definition returning :: "(string \<Rightarrow> string) \<Rightarrow> digest" where
  "returning D = (\<lambda>s. Inr (D s))"


subsection \<open>What the views take from Django and from the request\<close>

text \<open>
  The library functions the two views call, the project's settings and the two texts of
  the mail (Russian string literals in the source) are the fields of \<open>env\<close>:
  \<^item> \<open>sha256_hexdigest\<close>: \<^verbatim>\<open>sha256(s.encode()).hexdigest()\<close>;
  \<^item> \<open>b64_decode\<close>: \<^verbatim>\<open>force_str(urlsafe_base64_decode(uidb64))\<close>;
  \<^item> \<open>b64_encode\<close>: \<^verbatim>\<open>urlsafe_base64_encode(force_bytes(user.pk))\<close>;
  \<^item> \<open>to_pk\<close>: the conversion of a lookup value to the integer primary key, which
    raises for a string that is no number;
  \<^item> \<open>make_password\<close>: the hasher behind \<^verbatim>\<open>user.set_password\<close>;
  \<^item> \<open>send_mail\<close>: \<^verbatim>\<open>send_mail(..., fail_silently=False)\<close>, which may raise.
\<close>

record mail =
  subject :: string
  message :: string
  from_email :: string
  recipient_list :: "string list"

record env =
  sha256_hexdigest :: digest
  b64_decode :: "string \<Rightarrow> py_error + string"
  b64_encode :: "int \<Rightarrow> string"
  to_pk :: "string \<Rightarrow> py_error + int"
  make_password :: "string \<Rightarrow> string"
  send_mail :: "mail \<Rightarrow> py_error + nat"
  DEFAULT_FROM_EMAIL :: string
  mail_subject :: string
  mail_intro :: string

text \<open>The table of users, one element per row.\<close>

type_synonym table = "user list"

text \<open>\<^verbatim>\<open>User.objects.get(...)\<close>: the one row that matches, or an exception.\<close>

definition objects_get :: "(user \<Rightarrow> bool) \<Rightarrow> table \<Rightarrow> py_error + user" where
  "objects_get P db =
     (case filter P db of
        [] \<Rightarrow> Inl DoesNotExist
      | [u] \<Rightarrow> Inr u
      | _ # _ # _ \<Rightarrow> Inl MultipleObjectsReturned)"

text \<open>\<^verbatim>\<open>User.objects.get(pk=uid)\<close> with the string \<^verbatim>\<open>uid\<close>.\<close>

definition get_by_pk :: "env \<Rightarrow> table \<Rightarrow> string \<Rightarrow> py_error + user" where
  "get_by_pk E db uid =
     (case to_pk E uid of
        Inl e \<Rightarrow> Inl e
      | Inr k \<Rightarrow> objects_get (\<lambda>u. user_id u = k) db)"

text \<open>\<^verbatim>\<open>user.set_password(raw)\<close> and \<^verbatim>\<open>user.save()\<close>, which writes the row of that key.\<close>

definition set_password :: "env \<Rightarrow> user \<Rightarrow> string \<Rightarrow> user" where
  "set_password E u raw = u\<lparr>password := make_password E raw\<rparr>"

definition save :: "user \<Rightarrow> table \<Rightarrow> table" where
  "save u db = map (\<lambda>r. if user_id r = user_id u then u else r) db"

subsection \<open>\<^verbatim>\<open>PasswordResetConfirm.post\<close>\<close>

text \<open>\<^verbatim>\<open>request.POST.get(...)\<close> gives \<^verbatim>\<open>None\<close> for a missing field; \<^verbatim>\<open>not p\<close> holds for
  \<^verbatim>\<open>None\<close> and for the empty string.\<close>

record post_form =
  new_password1 :: "string option"
  new_password2 :: "string option"

definition py_not :: "string option \<Rightarrow> bool" where
  "py_not p = (case p of None \<Rightarrow> True | Some s \<Rightarrow> s = [])"

text \<open>The contexts the template is rendered with: \<^verbatim>\<open>{'validlink': False}\<close>; an error
  with the token and \<^verbatim>\<open>uidb64\<close>; \<^verbatim>\<open>{'validlink': True, 'success': True}\<close>.\<close>

datatype form_error = Enter_both_passwords | Passwords_do_not_match | Password_too_short

datatype page =
  Validlink_False
  | Validlink_error form_error string string
  | Validlink_success

text \<open>The body of the \<^verbatim>\<open>try\<close>. Where the source leaves the \<^verbatim>\<open>if\<close> without a
  \<^verbatim>\<open>return\<close>, it goes on to the last line of the method, which renders
  \<^verbatim>\<open>{'validlink': False}\<close>.\<close>

definition confirm_post_try ::
  "env \<Rightarrow> clock \<Rightarrow> table \<Rightarrow> string \<Rightarrow> string \<Rightarrow> post_form \<Rightarrow> py_error + page \<times> table" where
  "confirm_post_try E clk db uidb64 token form =
     (case b64_decode E uidb64 of
        Inl e \<Rightarrow> Inl e
      | Inr uid \<Rightarrow>
          (case get_by_pk E db uid of
             Inl e \<Rightarrow> Inl e
           | Inr u \<Rightarrow>
               if check_token (sha256_hexdigest E) clk u token then
                 (let password1 = new_password1 form; password2 = new_password2 form
                  in if py_not password1 \<or> py_not password2 then
                       Inr (Validlink_error Enter_both_passwords token uidb64, db)
                     else if password1 \<noteq> password2 then
                       Inr (Validlink_error Passwords_do_not_match token uidb64, db)
                     else if length (the password1) < 8 then
                       Inr (Validlink_error Password_too_short token uidb64, db)
                     else Inr (Validlink_success, save (set_password E u (the password1)) db))
               else Inr (Validlink_False, db)))"

text \<open>\<^verbatim>\<open>except (TypeError, ValueError, OverflowError, User.DoesNotExist): pass\<close>\<close>

definition confirm_caught :: "py_error \<Rightarrow> bool" where
  "confirm_caught e = (e = TypeError \<or> e = ValueError \<or> e = OverflowError \<or> e = DoesNotExist)"

text \<open>The method: the page it renders or the exception that leaves it, and the table
  afterwards.\<close>

definition confirm_post ::
  "env \<Rightarrow> clock \<Rightarrow> table \<Rightarrow> string \<Rightarrow> string \<Rightarrow> post_form \<Rightarrow> (py_error + page) \<times> table" where
  "confirm_post E clk db uidb64 token form =
     (case confirm_post_try E clk db uidb64 token form of
        Inl e \<Rightarrow> if confirm_caught e then (Inr Validlink_False, db) else (Inl e, db)
      | Inr (pg, db') \<Rightarrow> (Inr pg, db'))"

text \<open>What the handler asks before it sets a password, in the words of the
  specification: the identifier decodes and resolves to the user \<open>u\<close>, the token
  verifies for \<open>u\<close>, both password fields are present and equal to \<open>p\<close>, and \<open>p\<close> has
  at least 8 characters.\<close>

definition reset_accepted ::
  "env \<Rightarrow> clock \<Rightarrow> table \<Rightarrow> string \<Rightarrow> string \<Rightarrow> post_form \<Rightarrow> user \<Rightarrow> string \<Rightarrow> bool" where
  "reset_accepted E clk db uidb64 token form u p =
     ((case b64_decode E uidb64 of Inl e \<Rightarrow> False | Inr uid \<Rightarrow> get_by_pk E db uid = Inr u) \<and>
      check_token (sha256_hexdigest E) clk u token \<and>
      new_password1 form = Some p \<and> new_password2 form = Some p \<and> 8 \<le> length p)"

subsection \<open>\<^verbatim>\<open>PasswordResetRequest.post\<close>\<close>

record reset_request =
  scheme :: string
  host :: string
  data_email :: "string option"

datatype response = Response string string nat

text \<open>\<^verbatim>\<open>f"{request.scheme}://{request.get_host()}/api/v1/reset-password/{uid}/{token}"\<close>\<close>

definition reset_url :: "reset_request \<Rightarrow> string \<Rightarrow> string \<Rightarrow> string" where
  "reset_url req uid token =
     scheme req @ ''://'' @ host req @ ''/api/v1/reset-password/'' @ uid @ ''/'' @ token"

text \<open>The body of the \<^verbatim>\<open>try\<close>: the response or the exception, and the mails handed to
  \<^verbatim>\<open>send_mail\<close> so far.\<close>

definition request_post_try ::
  "env \<Rightarrow> clock \<Rightarrow> table \<Rightarrow> reset_request \<Rightarrow> (py_error + response) \<times> mail list" where
  "request_post_try E clk db req =
     (case objects_get (\<lambda>u. Some (email u) = data_email req) db of
        Inl e \<Rightarrow> (Inl e, [])
      | Inr u \<Rightarrow>
          (case generate_token (sha256_hexdigest E) clk u of
             Inl e \<Rightarrow> (Inl e, [])
           | Inr token \<Rightarrow>
               (let uid = b64_encode E (user_id u);
                    m = \<lparr>subject = mail_subject E,
                         message = mail_intro E @ reset_url req uid token,
                         from_email = DEFAULT_FROM_EMAIL E,
                         recipient_list = [the (data_email req)]\<rparr>
                in case send_mail E m of
                     Inl e \<Rightarrow> (Inl e, [m])
                   | Inr n \<Rightarrow> (Inr (Response ''message'' ''Password reset link sent'' 200), [m]))))"

text \<open>\<^verbatim>\<open>except User.DoesNotExist\<close>: the 404 response.\<close>

definition request_post ::
  "env \<Rightarrow> clock \<Rightarrow> table \<Rightarrow> reset_request \<Rightarrow> (py_error + response) \<times> mail list" where
  "request_post E clk db req =
     (case request_post_try E clk db req of
        (Inl e, out) \<Rightarrow>
          if e = DoesNotExist then (Inr (Response ''error'' ''User not found'' 404), out)
          else (Inl e, out)
      | (Inr r, out) \<Rightarrow> (Inr r, out))"

subsection \<open>Reading a decimal representation back\<close>

definition digits_value :: "string \<Rightarrow> nat" where
  "digits_value ds = foldl (\<lambda>a c. 10 * a + (of_char c - 48)) 0 ds"


subsection \<open>An instance for the examples\<close>

text \<open>A user row and an environment on which the definitions can be run: the digest
  returns its argument (so that it does not collide on strings of less than 32
  characters), \<^verbatim>\<open>Nw\<close> is the base64 of \<^verbatim>\<open>7\<close>.\<close>

definition example_user :: user where
  "example_user = \<lparr>email = ''a@b.com'', user_id = 7, password = ''h1''\<rparr>"

definition example_env :: env where
  "example_env =
     \<lparr>sha256_hexdigest = returning (\<lambda>s. s),
      b64_decode = (\<lambda>s. if s = ''Nw'' then Inr ''7'' else Inl ValueError),
      b64_encode = (\<lambda>k. if k = 7 then ''Nw'' else []),
      to_pk = (\<lambda>s. if s = ''7'' then Inr 7 else Inl ValueError),
      make_password = (\<lambda>raw. ''sha256$'' @ raw),
      send_mail = (\<lambda>m. Inr 1),
      DEFAULT_FROM_EMAIL = ''noreply@example.org'',
      mail_subject = ''Password reset'',
      mail_intro = ''Link: ''\<rparr>"

section \<open>Properties\<close>

subsection \<open>The decimal representation\<close>

lemma of_char_digit_char: "d < 10 \<Longrightarrow> of_char (digit_char d) = 48 + d"
proof -
  assume "d < 10"
  then have "d \<in> {0, 1, 2, 3, 4, 5, 6, 7, 8, 9}" by auto
  then show ?thesis by (auto simp: digit_char_def)
qed

lemma digit_char_not_dash: "d < 10 \<Longrightarrow> digit_char d \<noteq> CHR ''-''"
proof
  assume d: "d < 10" and eq: "digit_char d = CHR ''-''"
  then have "(of_char (digit_char d) :: nat) = of_char CHR ''-''" by simp
  with d show False by (simp add: of_char_digit_char)
qed

lemma digits_value_str_nat: "digits_value (str_nat n) = n"
proof (induction n rule: str_nat.induct)
  case (1 n)
  show ?case
  proof (cases "n < 10")
    case True
    then show ?thesis
      by (subst str_nat.simps) (simp add: digits_value_def of_char_digit_char)
  next
    case False
    with "1" have IH: "digits_value (str_nat (n div 10)) = n div 10" by simp
    have "digits_value (str_nat n) = 10 * digits_value (str_nat (n div 10)) + n mod 10"
      using False
      by (subst str_nat.simps) (simp add: digits_value_def of_char_digit_char)
    with IH show ?thesis by simp
  qed
qed

lemma str_nat_inj: "str_nat m = str_nat n \<Longrightarrow> m = n"
  by (metis digits_value_str_nat)

lemma str_nat_no_dash: "CHR ''-'' \<notin> set (str_nat n)"
proof (induction n rule: str_nat.induct)
  case (1 n)
  show ?case
  proof (cases "n < 10")
    case True
    then show ?thesis
      using digit_char_not_dash [of n] by (subst str_nat.simps) auto
  next
    case False
    with "1" have "CHR ''-'' \<notin> set (str_nat (n div 10))" by simp
    moreover have "digit_char (n mod 10) \<noteq> CHR ''-''"
      by (rule digit_char_not_dash) simp
    ultimately show ?thesis
      using False by (subst str_nat.simps) auto
  qed
qed

lemma str_int_inj: "str_int i = str_int j \<Longrightarrow> i = j"
proof -
  assume eq: "str_int i = str_int j"
  have head: "\<And>n m. CHR ''-'' # str_nat n \<noteq> str_nat m"
    using str_nat_no_dash by (metis list.set_intros(1))
  show "i = j"
  proof (cases "i < 0")
    case True
    show ?thesis
    proof (cases "j < 0")
      case True
      with \<open>i < 0\<close> eq have "nat (- i) = nat (- j)"
        by (simp add: str_int_def str_nat_inj)
      with True \<open>i < 0\<close> show ?thesis by simp
    next
      case False
      with \<open>i < 0\<close> eq head show ?thesis by (simp add: str_int_def)
    qed
  next
    case False
    show ?thesis
    proof (cases "j < 0")
      case True
      with \<open>\<not> i < 0\<close> eq head [of "nat (- j)" "nat i"] show ?thesis
        by (simp add: str_int_def)
    next
      case False
      with \<open>\<not> i < 0\<close> eq have "nat i = nat j"
        by (simp add: str_int_def str_nat_inj)
      with False \<open>\<not> i < 0\<close> show ?thesis by simp
    qed
  qed
qed

subsection \<open>The canonical string determines its fields\<close>

lemma token_string_time_inj: "token_string u a = token_string u b \<Longrightarrow> a = b"
  by (simp add: token_string_def str_int_inj)



text \<open>The sign of a negative time is the separator as well: without the condition on
  the signs the string does not determine the password field.\<close>

lemma token_string_negative_time:
  "token_string \<lparr>email = ''a@b.com'', user_id = 7, password = ''h''\<rparr> (- 3600) =
   token_string \<lparr>email = ''a@b.com'', user_id = 7, password = ''h-''\<rparr> 3600"
  by (simp add: str_int_def str_nat.simps digit_char_def token_string_def)

lemmas format_eval = str_int_def str_nat.simps digit_char_def token_string_def

subsection \<open>Hour buckets\<close>

lemma bucket_eq: "(t::int) - t mod 3600 = 3600 * (t div 3600)"
  by (simp add: minus_mod_eq_mult_div)

lemma candidate_mod: "((t::int) - t mod 3600 - int k * 3600) mod 3600 = 0"
  by (simp add: bucket_eq mod_diff_eq [symmetric] flip: mod_diff_eq)



subsection \<open>The loop of \<open>check_token\<close>\<close>

lemma digest32_returning: "digest32 (returning D) s = Inr (take 32 (D s))"
  by (simp add: digest32_def returning_def)

lemma check_hours_returning:
  "check_hours (returning D) u token t ks =
     Inr (\<exists>k \<in> set ks. token = take 32 (D (token_string u (t - t mod 3600 - int k * 3600))))"
  by (induction ks) (auto simp: digest32_returning Let_def)

lemma check_token_returning:
  "check_token (returning D) (Inr now) u token \<longleftrightarrow>
     (\<exists>k < 24. token = take 32 (D (token_string u (now - now mod 3600 - int k * 3600))))"
  by (auto simp: check_token_def check_token_try_def check_hours_returning)

lemma generate_token_at:
  "generate_token H (Inr now) u = digest32 H (token_string u (now - now mod 3600))"
  by (simp add: generate_token_def Let_def)

lemma generate_token_candidate:
  "generate_token H (Inr (now - now mod 3600 - int k * 3600)) u =
     digest32 H (token_string u (now - now mod 3600 - int k * 3600))"
  by (simp only: generate_token_at candidate_mod diff_zero)

text \<open>The loop returns \<^verbatim>\<open>True\<close> exactly at the first candidate that equals the token,
  provided every candidate before it was computed without an exception.\<close>

lemma check_hours_True_iff:
  "check_hours H u token t ks = Inr True \<longleftrightarrow>
     (\<exists>i < length ks.
        digest32 H (token_string u (t - t mod 3600 - int (ks ! i) * 3600)) = Inr token \<and>
        (\<forall>j < i. \<exists>d. digest32 H (token_string u (t - t mod 3600 - int (ks ! j) * 3600)) = Inr d
                       \<and> d \<noteq> token))"
  (is "?lhs ks \<longleftrightarrow> ?rhs ks")
proof (induction ks)
  case Nil
  then show ?case by simp
next
  case (Cons k ks)
  show ?case
  proof (cases "digest32 H (token_string u (t - t mod 3600 - int k * 3600))")
    case (Inl e)
    have "\<not> ?rhs (k # ks)"
    proof
      assume "?rhs (k # ks)"
      then obtain i where i:
        "digest32 H (token_string u (t - t mod 3600 - int ((k # ks) ! i) * 3600)) = Inr token"
        "\<forall>j < i. \<exists>d. digest32 H (token_string u (t - t mod 3600 - int ((k # ks) ! j) * 3600)) = Inr d
                     \<and> d \<noteq> token"
        by blast
      show False
      proof (cases i)
        case 0
        with i(1) Inl show False by simp
      next
        case (Suc i')
        with i(2) have "\<exists>d. digest32 H (token_string u (t - t mod 3600 - int ((k # ks) ! 0) * 3600)) = Inr d
                           \<and> d \<noteq> token"
          by blast
        with Inl show False by simp
      qed
    qed
    moreover have "check_hours H u token t (k # ks) \<noteq> Inr True"
      using Inl by (simp add: Let_def)
    ultimately show ?thesis by blast
  next
    case (Inr d)
    show ?thesis
    proof (cases "token = d")
      case True
      with Inr show ?thesis by (auto simp: Let_def intro!: exI[of _ 0])
    next
      case False
      have "check_hours H u token t (k # ks) = check_hours H u token t ks"
        using Inr False by (simp add: Let_def)
      also have "(\<dots> = Inr True) \<longleftrightarrow> ?rhs ks"
        by (rule Cons.IH)
      also have "\<dots> \<longleftrightarrow> ?rhs (k # ks)"
      proof
        assume "?rhs ks"
        then obtain i where i: "i < length ks"
          "digest32 H (token_string u (t - t mod 3600 - int (ks ! i) * 3600)) = Inr token"
          "\<forall>j < i. \<exists>d. digest32 H (token_string u (t - t mod 3600 - int (ks ! j) * 3600)) = Inr d
                       \<and> d \<noteq> token"
          by blast
        have "\<forall>j < Suc i. \<exists>d. digest32 H (token_string u (t - t mod 3600 - int ((k # ks) ! j) * 3600)) = Inr d
                               \<and> d \<noteq> token"
          using i(3) Inr False by (auto simp: less_Suc_eq_0_disj)
        with i(1,2) show "?rhs (k # ks)" by (intro exI[of _ "Suc i"]) simp
      next
        assume "?rhs (k # ks)"
        then obtain i where i: "i < length (k # ks)"
          "digest32 H (token_string u (t - t mod 3600 - int ((k # ks) ! i) * 3600)) = Inr token"
          "\<forall>j < i. \<exists>d. digest32 H (token_string u (t - t mod 3600 - int ((k # ks) ! j) * 3600)) = Inr d
                       \<and> d \<noteq> token"
          by blast
        from i(2) Inr False obtain i' where i': "i = Suc i'" by (cases i) auto
        have "\<forall>j < i'. \<exists>d. digest32 H (token_string u (t - t mod 3600 - int (ks ! j) * 3600)) = Inr d
                            \<and> d \<noteq> token"
          using i(3) i' by (metis Suc_less_eq nth_Cons_Suc)
        with i(1,2) i' show "?rhs ks" by (intro exI[of _ i']) simp
      qed
      finally show ?thesis .
    qed
  qed
qed

lemma check_token_first_match:
  "check_token H (Inr now) u token \<longleftrightarrow>
     (\<exists>k < 24.
        digest32 H (token_string u (now - now mod 3600 - int k * 3600)) = Inr token \<and>
        (\<forall>j < k. \<exists>d. digest32 H (token_string u (now - now mod 3600 - int j * 3600)) = Inr d
                       \<and> d \<noteq> token))"
proof -
  have "check_token H (Inr now) u token \<longleftrightarrow> check_hours H u token now [0..<24] = Inr True"
    by (auto simp: check_token_def check_token_try_def split: sum.splits)
  also have "\<dots> \<longleftrightarrow>
     (\<exists>i < length [0..<24].
        digest32 H (token_string u (now - now mod 3600 - int ([0..<24] ! i) * 3600)) = Inr token \<and>
        (\<forall>j < i. \<exists>d. digest32 H (token_string u (now - now mod 3600 - int ([0..<24] ! j) * 3600)) = Inr d
                       \<and> d \<noteq> token))"
    by (rule check_hours_True_iff)
  also have "\<dots> \<longleftrightarrow>
     (\<exists>k < 24.
        digest32 H (token_string u (now - now mod 3600 - int k * 3600)) = Inr token \<and>
        (\<forall>j < k. \<exists>d. digest32 H (token_string u (now - now mod 3600 - int j * 3600)) = Inr d
                       \<and> d \<noteq> token))"
    by (intro ex_cong1) (auto simp del: upt_Suc)
  finally show ?thesis .
qed

subsection \<open>Accepting and rejecting a token\<close>



lemma check_token_accepts:
  assumes "0 \<le> now div 3600 - t_gen div 3600" "now div 3600 - t_gen div 3600 \<le> 23"
  shows "check_token (returning D) (Inr now) u (take 32 (D (token_string u (t_gen - t_gen mod 3600))))"
proof -
  define k where "k = nat (now div 3600 - t_gen div 3600)"
  have "k < 24" and "int k = now div 3600 - t_gen div 3600"
    using assms by (auto simp: k_def)
  then have "now - now mod 3600 - int k * 3600 = t_gen - t_gen mod 3600"
    by (simp add: bucket_eq)
  with \<open>k < 24\<close> show ?thesis
    unfolding check_token_returning by metis
qed

text \<open>Outside the window of 24 buckets the candidate strings all differ from the string
  the token was computed from: the token is accepted only if the truncated digest
  collides on two different strings.\<close>

lemma window_strings_differ:
  assumes "24 \<le> now div 3600 - t_gen div 3600 \<or> now div 3600 < t_gen div 3600" "k < 24"
  shows "token_string u (now - now mod 3600 - int k * 3600)
           \<noteq> token_string u (t_gen - t_gen mod 3600)"
proof
  assume "token_string u (now - now mod 3600 - int k * 3600)
            = token_string u (t_gen - t_gen mod 3600)"
  then have "now - now mod 3600 - int k * 3600 = t_gen - t_gen mod 3600"
    by (rule token_string_time_inj)
  then have "now div 3600 - int k = t_gen div 3600"
    by (simp add: bucket_eq algebra_simps)
  with assms show False by auto
qed

subsection \<open>Counting truncated digests\<close>











subsection \<open>The two views\<close>

lemma confirm_post_accepted:
  assumes "reset_accepted E clk db uidb64 token form u p"
  shows "confirm_post E clk db uidb64 token form =
           (Inr Validlink_success, save (set_password E u p) db)"
proof -
  from assms obtain uid where "b64_decode E uidb64 = Inr uid" "get_by_pk E db uid = Inr u"
    by (auto simp: reset_accepted_def split: sum.splits)
  moreover from assms have "check_token (sha256_hexdigest E) clk u token"
    "new_password1 form = Some p" "new_password2 form = Some p" "8 \<le> length p"
    by (auto simp: reset_accepted_def)
  ultimately show ?thesis
    by (auto simp: confirm_post_def confirm_post_try_def py_not_def Let_def)
qed

lemma confirm_post_try_cases:
  assumes "confirm_post_try E clk db uidb64 token form = Inr (pg, db')"
  shows "(\<exists>u p. reset_accepted E clk db uidb64 token form u p \<and> pg = Validlink_success
            \<and> db' = save (set_password E u p) db)
         \<or> (pg \<noteq> Validlink_success \<and> db' = db)"
  using assms
  by (auto simp: confirm_post_try_def reset_accepted_def py_not_def Let_def
           split: sum.splits if_splits option.splits)

lemma confirm_post_not_accepted:
  assumes "\<forall>u p. \<not> reset_accepted E clk db uidb64 token form u p"
  shows "snd (confirm_post E clk db uidb64 token form) = db \<and>
         fst (confirm_post E clk db uidb64 token form) \<noteq> Inr Validlink_success"
proof (cases "confirm_post_try E clk db uidb64 token form")
  case (Inl e)
  then show ?thesis by (simp add: confirm_post_def)
next
  case (Inr r)
  obtain pg db' where r: "r = (pg, db')" by (cases r)
  with Inr confirm_post_try_cases [of E clk db uidb64 token form pg db'] assms
  have "pg \<noteq> Validlink_success \<and> db' = db" by blast
  with Inr r show ?thesis by (simp add: confirm_post_def)
qed

lemma objects_get_absent:
  "\<forall>u \<in> set db. \<not> P u \<Longrightarrow> objects_get P db = Inl DoesNotExist"
proof -
  assume "\<forall>u \<in> set db. \<not> P u"
  then have "filter P db = []" by (simp add: filter_empty_conv)
  then show ?thesis by (simp add: objects_get_def)
qed

lemma objects_get_only:
  "filter P db = [u] \<Longrightarrow> objects_get P db = Inr u"
  by (simp add: objects_get_def)

lemma example_check_token:
  "check_token (sha256_hexdigest example_env) (Inr 7300) example_user ''a@b.com-7-h1-3600''"
proof -
  have "token_string example_user (7300 - 7300 mod 3600 - int 1 * 3600) = ''a@b.com-7-h1-3600''"
    by (simp add: example_user_def format_eval)
  then have "\<exists>k < 24. ''a@b.com-7-h1-3600'' =
      take 32 (token_string example_user (7300 - 7300 mod 3600 - int k * 3600))"
    by (intro exI [of _ 1]) (simp del: of_nat_1 of_nat_Suc)
  then show ?thesis
    by (simp only: example_env_def env.simps check_token_returning)
qed

lemma example_get_by_pk: "get_by_pk example_env [example_user] ''7'' = Inr example_user"
  by (simp add: get_by_pk_def objects_get_def example_env_def example_user_def)

section \<open>The claims\<close>

text \<open>
  C1. For every user, presented token and time \<open>now\<close>, with a digest that returns,
  \<open>check_token\<close> is true if and only if for some \<open>k\<close> in \<open>0..23\<close> the token equals the
  one \<open>generate_token\<close> computes for the hour bucket \<open>(now - now mod 3600) - k * 3600\<close>.
  Second part, for any digest: the candidates are tried in the order \<open>k = 0, 1, ..., 23\<close>
  and the check succeeds at the first one that equals the token.
\<close>

theorem check_token_iff_some_candidate:
  "(check_token (returning D) (Inr now) u token \<longleftrightarrow>
      (\<exists>k \<in> {0..<24}.
         generate_token (returning D) (Inr (now - now mod 3600 - int k * 3600)) u = Inr token))
   \<and> (check_token H (Inr now) u token \<longleftrightarrow>
      (\<exists>k \<in> {0..<24}.
         generate_token H (Inr (now - now mod 3600 - int k * 3600)) u = Inr token \<and>
         (\<forall>j < k. \<exists>d. generate_token H (Inr (now - now mod 3600 - int j * 3600)) u = Inr d
                        \<and> d \<noteq> token)))"
proof
  show "check_token (returning D) (Inr now) u token \<longleftrightarrow>
      (\<exists>k \<in> {0..<24}.
         generate_token (returning D) (Inr (now - now mod 3600 - int k * 3600)) u = Inr token)"
    by (auto simp: check_token_returning generate_token_candidate digest32_returning)
  show "check_token H (Inr now) u token \<longleftrightarrow>
      (\<exists>k \<in> {0..<24}.
         generate_token H (Inr (now - now mod 3600 - int k * 3600)) u = Inr token \<and>
         (\<forall>j < k. \<exists>d. generate_token H (Inr (now - now mod 3600 - int j * 3600)) u = Inr d
                        \<and> d \<noteq> token))"
    unfolding check_token_first_match generate_token_candidate by auto
qed

theorem check_token_iff_some_candidate_witness:
  "check_token (returning (\<lambda>s. s)) (Inr 7300)
      \<lparr>email = ''a@b.com'', user_id = 7, password = ''h1''\<rparr> ''a@b.com-7-h1-3600''"
proof -
  let ?u = "\<lparr>email = ''a@b.com'', user_id = 7, password = ''h1''\<rparr>"
  have "generate_token (returning (\<lambda>s. s)) (Inr (7300 - 7300 mod 3600 - int 1 * 3600)) ?u
       = Inr ''a@b.com-7-h1-3600''"
    by (simp add: generate_token_at digest32_returning format_eval)
  then have "\<exists>k \<in> {0..<24}.
      generate_token (returning (\<lambda>s. s)) (Inr (7300 - 7300 mod 3600 - int k * 3600)) ?u
       = Inr ''a@b.com-7-h1-3600''"
    by (intro bexI [of _ 1]) simp_all
  then show ?thesis
    using check_token_iff_some_candidate
      [of "\<lambda>s. s" 7300 ?u "''a@b.com-7-h1-3600''" "returning (\<lambda>s. s)"]
    by blast
qed

text \<open>
  C2. For every user and time \<open>now\<close>, \<open>generate_token\<close> is the first 32 characters of
  the hexadecimal digest of the string \<^verbatim>\<open>"{email}-{id}-{password}-{time_bucket}"\<close>, where
  \<open>time_bucket = now - now mod 3600\<close>.
\<close>

theorem generate_token_is_truncated_digest:
  "generate_token (returning D) (Inr now) u =
     Inr (take 32 (D (email u @ ''-'' @ str_int (user_id u) @ ''-'' @ password u @ ''-''
                       @ str_int (now - now mod 3600))))"
  by (simp add: generate_token_at digest32_returning token_string_def)

theorem generate_token_is_truncated_digest_witness:
  "generate_token (returning (\<lambda>s. s @ s @ s)) (Inr 7300)
      \<lparr>email = ''a@b.com'', user_id = 7, password = ''h1''\<rparr> =
     Inr ''a@b.com-7-h1-7200a@b.com-7-h1-72''"
  using generate_token_is_truncated_digest
    [of "\<lambda>s. s @ s @ s" 7300 "\<lparr>email = ''a@b.com'', user_id = 7, password = ''h1''\<rparr>"]
  by (simp add: format_eval)

text \<open>
  C5. For a fixed user and two times of the same hour bucket
  (\<open>t1 div 3600 = t2 div 3600\<close>), \<open>generate_token\<close> gives the same result, whatever the
  digest; in particular the result is a function of its inputs.
\<close>

theorem generate_token_same_bucket:
  "t1 div 3600 = t2 div 3600 \<Longrightarrow> generate_token H (Inr t1) u = generate_token H (Inr t2) u"
  by (simp add: generate_token_at bucket_eq)

theorem generate_token_same_bucket_witness:
  "(3600::int) div 3600 = 7199 div 3600 \<and>
   generate_token (returning (\<lambda>s. s)) (Inr 3600)
      \<lparr>email = ''a@b.com'', user_id = 7, password = ''h1''\<rparr> =
   generate_token (returning (\<lambda>s. s)) (Inr 7199)
      \<lparr>email = ''a@b.com'', user_id = 7, password = ''h1''\<rparr>"
proof -
  have h: "(3600::int) div 3600 = 7199 div 3600" by simp
  from h generate_token_same_bucket [OF h] show ?thesis by blast
qed

text \<open>
  C6. \<open>check_token\<close> returns a boolean for every digest, clock, user and token: when
  the body of its \<^verbatim>\<open>try\<close> raises (the clock or the digest, at any candidate), the result
  is \<open>False\<close>, and otherwise it is the boolean the body returned.
\<close>

theorem check_token_exception_is_False:
  "(check_token_try H clk u token = Inl e \<longrightarrow> check_token H clk u token = False) \<and>
   (check_token_try H clk u token = Inr b \<longrightarrow> check_token H clk u token = b)"
  by (simp add: check_token_def)

theorem check_token_exception_is_False_witness:
  "check_token_try (\<lambda>s. Inl ValueError) (Inr 7300)
      \<lparr>email = ''a@b.com'', user_id = 7, password = ''h1''\<rparr> ''abc'' = Inl ValueError \<and>
   check_token (\<lambda>s. Inl ValueError) (Inr 7300)
      \<lparr>email = ''a@b.com'', user_id = 7, password = ''h1''\<rparr> ''abc'' = False"
proof -
  have h: "check_token_try (\<lambda>s. Inl ValueError) (Inr 7300)
      \<lparr>email = ''a@b.com'', user_id = 7, password = ''h1''\<rparr> ''abc'' = Inl ValueError"
    by (simp add: check_token_try_def upt_conv_Cons [of 0 24] digest32_def)
  from h check_token_exception_is_False
    [of "\<lambda>s. Inl ValueError" "Inr 7300"
        "\<lparr>email = ''a@b.com'', user_id = 7, password = ''h1''\<rparr>" "''abc''" ValueError]
  show ?thesis by blast
qed




text \<open>
  C7. \<open>PasswordResetConfirm.post\<close> sets the password only when the identifier decodes
  and resolves to a user, the token verifies for that user, both password fields are
  present and equal, and the new password has at least 8 characters
  (\<open>reset_accepted\<close>): then the row of that user is saved with the hash of the new
  password; in every other case the table is left as it was.
\<close>

theorem password_set_only_when_accepted:
  "(reset_accepted E clk db uidb64 token form u p \<longrightarrow>
      confirm_post E clk db uidb64 token form =
        (Inr Validlink_success, save (set_password E u p) db)) \<and>
   ((\<forall>u p. \<not> reset_accepted E clk db uidb64 token form u p) \<longrightarrow>
      snd (confirm_post E clk db uidb64 token form) = db \<and>
      fst (confirm_post E clk db uidb64 token form) \<noteq> Inr Validlink_success)"
  using confirm_post_accepted confirm_post_not_accepted by blast

theorem password_set_only_when_accepted_witness:
  "reset_accepted example_env (Inr 7300) [example_user] ''Nw'' ''a@b.com-7-h1-3600''
      \<lparr>new_password1 = Some ''newpass12'', new_password2 = Some ''newpass12''\<rparr>
      example_user ''newpass12'' \<and>
   confirm_post example_env (Inr 7300) [example_user] ''Nw'' ''a@b.com-7-h1-3600''
      \<lparr>new_password1 = Some ''newpass12'', new_password2 = Some ''newpass12''\<rparr> =
     (Inr Validlink_success, [example_user\<lparr>password := ''sha256$newpass12''\<rparr>]) \<and>
   (\<forall>u p. \<not> reset_accepted example_env (Inr 7300) [example_user] ''Zz'' ''a@b.com-7-h1-3600''
      \<lparr>new_password1 = Some ''newpass12'', new_password2 = Some ''newpass12''\<rparr> u p) \<and>
   snd (confirm_post example_env (Inr 7300) [example_user] ''Zz'' ''a@b.com-7-h1-3600''
      \<lparr>new_password1 = Some ''newpass12'', new_password2 = Some ''newpass12''\<rparr>) = [example_user]"
proof -
  let ?form = "\<lparr>new_password1 = Some ''newpass12'', new_password2 = Some ''newpass12''\<rparr>"
  have dec: "b64_decode example_env ''Nw'' = Inr ''7''"
    by (simp add: example_env_def)
  have acc: "reset_accepted example_env (Inr 7300) [example_user] ''Nw'' ''a@b.com-7-h1-3600''
      ?form example_user ''newpass12''"
    unfolding reset_accepted_def using example_check_token example_get_by_pk
    by (simp add: dec)
  have sv: "save (set_password example_env example_user ''newpass12'') [example_user]
      = [example_user\<lparr>password := ''sha256$newpass12''\<rparr>]"
    by (simp add: save_def set_password_def example_env_def)
  have rej: "\<forall>u p. \<not> reset_accepted example_env (Inr 7300) [example_user] ''Zz''
      ''a@b.com-7-h1-3600'' ?form u p"
    by (simp add: reset_accepted_def example_env_def)
  from password_set_only_when_accepted
    [of example_env "Inr 7300" "[example_user]" "''Nw''" "''a@b.com-7-h1-3600''" ?form
        example_user "''newpass12''"] acc sv
  have 1: "confirm_post example_env (Inr 7300) [example_user] ''Nw'' ''a@b.com-7-h1-3600'' ?form =
     (Inr Validlink_success, [example_user\<lparr>password := ''sha256$newpass12''\<rparr>])"
    by simp
  from password_set_only_when_accepted
    [of example_env "Inr 7300" "[example_user]" "''Zz''" "''a@b.com-7-h1-3600''" ?form] rej
  have 2: "snd (confirm_post example_env (Inr 7300) [example_user] ''Zz'' ''a@b.com-7-h1-3600''
      ?form) = [example_user]"
    by blast
  from acc 1 rej 2 show ?thesis by blast
qed

text \<open>
  C10. When the token check succeeds and the submitted passwords fail validation (a field
  missing or empty, the two unequal, or fewer than 8 characters), the handler renders the
  form with an error and the table is unchanged: nothing was saved.
\<close>

theorem invalid_passwords_leave_table:
  assumes "b64_decode E uidb64 = Inr uid" "get_by_pk E db uid = Inr u"
    and "check_token (sha256_hexdigest E) clk u token"
    and "\<not> (\<exists>p. new_password1 form = Some p \<and> new_password2 form = Some p \<and> 8 \<le> length p)"
  shows "\<exists>err. confirm_post E clk db uidb64 token form = (Inr (Validlink_error err token uidb64), db)"
  using assms
  by (auto simp: confirm_post_def confirm_post_try_def py_not_def Let_def split: option.splits)

theorem invalid_passwords_leave_table_witness:
  "b64_decode example_env ''Nw'' = Inr ''7'' \<and>
   get_by_pk example_env [example_user] ''7'' = Inr example_user \<and>
   check_token (sha256_hexdigest example_env) (Inr 7300) example_user ''a@b.com-7-h1-3600'' \<and>
   \<not> (\<exists>p. new_password1 \<lparr>new_password1 = Some ''short'', new_password2 = Some ''short''\<rparr> = Some p \<and>
            new_password2 \<lparr>new_password1 = Some ''short'', new_password2 = Some ''short''\<rparr> = Some p \<and>
            8 \<le> length p) \<and>
   (\<exists>err. confirm_post example_env (Inr 7300) [example_user] ''Nw'' ''a@b.com-7-h1-3600''
      \<lparr>new_password1 = Some ''short'', new_password2 = Some ''short''\<rparr> =
     (Inr (Validlink_error err ''a@b.com-7-h1-3600'' ''Nw''), [example_user]))"
proof -
  let ?form = "\<lparr>new_password1 = Some ''short'', new_password2 = Some ''short''\<rparr>"
  have dec: "b64_decode example_env ''Nw'' = Inr ''7''"
    by (simp add: example_env_def)
  have bad: "\<not> (\<exists>p. new_password1 ?form = Some p \<and> new_password2 ?form = Some p \<and> 8 \<le> length p)"
    by auto
  from invalid_passwords_leave_table [OF dec example_get_by_pk example_check_token bad]
    dec example_get_by_pk example_check_token bad
  show ?thesis by blast
qed

text \<open>
  C8, as amended. \<open>PasswordResetRequest.post\<close>: when no user has the email of the
  request, the response is 404 \<^verbatim>\<open>User not found\<close> and no mail is handed over. When exactly
  one user has it, the handler generates the token of that user and hands \<open>send_mail\<close>
  one mail, to that address, whose message ends with the URL
  \<^verbatim>\<open>{scheme}://{host}/api/v1/reset-password/{uid}/{token}\<close>, \<^verbatim>\<open>uid\<close> the base64 of the
  user's key.
\<close>

theorem request_post_not_found_or_mail:
  "((\<forall>u \<in> set db. Some (email u) \<noteq> data_email req) \<longrightarrow>
      request_post E clk db req = (Inr (Response ''error'' ''User not found'' 404), [])) \<and>
   (filter (\<lambda>x. Some (email x) = data_email req) db = [u] \<and>
    generate_token (sha256_hexdigest E) clk u = Inr token \<longrightarrow>
      snd (request_post E clk db req) =
        [\<lparr>subject = mail_subject E,
          message = mail_intro E @ scheme req @ ''://'' @ host req @ ''/api/v1/reset-password/''
                      @ b64_encode E (user_id u) @ ''/'' @ token,
          from_email = DEFAULT_FROM_EMAIL E,
          recipient_list = [email u]\<rparr>])"
proof (intro conjI impI)
  assume "\<forall>u \<in> set db. Some (email u) \<noteq> data_email req"
  then have "objects_get (\<lambda>u. Some (email u) = data_email req) db = Inl DoesNotExist"
    by (intro objects_get_absent) simp
  then show "request_post E clk db req = (Inr (Response ''error'' ''User not found'' 404), [])"
    by (simp add: request_post_def request_post_try_def)
next
  assume a: "filter (\<lambda>x. Some (email x) = data_email req) db = [u] \<and>
    generate_token (sha256_hexdigest E) clk u = Inr token"
  then have "u \<in> set (filter (\<lambda>x. Some (email x) = data_email req) db)" by simp
  then have e: "data_email req = Some (email u)" by simp
  from a have "objects_get (\<lambda>x. Some (email x) = data_email req) db = Inr u"
    by (intro objects_get_only) simp
  with a e show "snd (request_post E clk db req) =
        [\<lparr>subject = mail_subject E,
          message = mail_intro E @ scheme req @ ''://'' @ host req @ ''/api/v1/reset-password/''
                      @ b64_encode E (user_id u) @ ''/'' @ token,
          from_email = DEFAULT_FROM_EMAIL E,
          recipient_list = [email u]\<rparr>]"
    by (simp add: request_post_def request_post_try_def reset_url_def Let_def split: sum.splits)
qed

theorem request_post_not_found_or_mail_witness:
  "request_post example_env (Inr 7300) [example_user]
      \<lparr>scheme = ''http'', host = ''example.org'', data_email = Some ''x@y.z''\<rparr> =
     (Inr (Response ''error'' ''User not found'' 404), []) \<and>
   snd (request_post example_env (Inr 7300) [example_user]
      \<lparr>scheme = ''http'', host = ''example.org'', data_email = Some ''a@b.com''\<rparr>) =
     [\<lparr>subject = ''Password reset'',
       message = ''Link: http://example.org/api/v1/reset-password/Nw/a@b.com-7-h1-7200'',
       from_email = ''noreply@example.org'',
       recipient_list = [''a@b.com'']\<rparr>]"
proof -
  let ?absent = "\<lparr>scheme = ''http'', host = ''example.org'', data_email = Some ''x@y.z''\<rparr>"
  let ?present = "\<lparr>scheme = ''http'', host = ''example.org'', data_email = Some ''a@b.com''\<rparr>"
  have none: "\<forall>u \<in> set [example_user]. Some (email u) \<noteq> data_email ?absent"
    by (simp add: example_user_def)
  have gen: "generate_token (sha256_hexdigest example_env) (Inr 7300) example_user
      = Inr ''a@b.com-7-h1-7200''"
    by (simp add: example_env_def example_user_def generate_token_at digest32_returning format_eval)
  have one: "filter (\<lambda>x. Some (email x) = data_email ?present) [example_user] = [example_user]"
    by (simp add: example_user_def)
  from request_post_not_found_or_mail
    [of "[example_user]" ?absent example_env "Inr 7300"] none
  have 1: "request_post example_env (Inr 7300) [example_user] ?absent =
     (Inr (Response ''error'' ''User not found'' 404), [])"
    by blast
  from request_post_not_found_or_mail
    [of "[example_user]" ?present example_env "Inr 7300" example_user "''a@b.com-7-h1-7200''"]
    one gen
  have "snd (request_post example_env (Inr 7300) [example_user] ?present) =
        [\<lparr>subject = mail_subject example_env,
          message = mail_intro example_env @ scheme ?present @ ''://'' @ host ?present
                      @ ''/api/v1/reset-password/''
                      @ b64_encode example_env (user_id example_user) @ ''/'' @ ''a@b.com-7-h1-7200'',
          from_email = DEFAULT_FROM_EMAIL example_env,
          recipient_list = [email example_user]\<rparr>]"
    by blast
  then have 2: "snd (request_post example_env (Inr 7300) [example_user] ?present) =
     [\<lparr>subject = ''Password reset'',
       message = ''Link: http://example.org/api/v1/reset-password/Nw/a@b.com-7-h1-7200'',
       from_email = ''noreply@example.org'',
       recipient_list = [''a@b.com'']\<rparr>]"
    by (simp add: example_env_def example_user_def)
  from 1 2 show ?thesis ..
qed

text \<open>
  C8 as stated fails when two rows have the email of the request: \<^verbatim>\<open>User.objects.get\<close>
  raises \<^verbatim>\<open>MultipleObjectsReturned\<close>, which the handler does not catch; no token is
  generated and no mail is handed over.
\<close>

theorem request_post_two_rows_counterexample:
  "\<forall>E clk. request_post E clk
       [\<lparr>email = ''a@b.com'', user_id = 7, password = ''h1''\<rparr>,
        \<lparr>email = ''a@b.com'', user_id = 8, password = ''h2''\<rparr>]
       \<lparr>scheme = ''http'', host = ''example.org'', data_email = Some ''a@b.com''\<rparr>
     = (Inl MultipleObjectsReturned, [])"
  by (simp add: request_post_def request_post_try_def objects_get_def)


end
